theory Spec2Isabelle
  imports Complex_Main "HOL-Library.Sublist" "HOL-Library.AList"
begin

section \<open>Strings\<close>

text \<open>
  Strings of the program (Python \<open>str\<close>, JavaScript \<open>String\<close>) are modelled as
  \<^typ>\<open>string\<close>; a \<^typ>\<open>char\<close> stands for a code point below 256.
\<close>

definition char_code :: "char \<Rightarrow> nat" where
  "char_code c = of_char c"

text \<open>White space removed by JavaScript's \<open>String.prototype.trim\<close>: TAB, LF, VT, FF, CR,
  SPACE and NBSP.\<close>

definition js_space :: "char \<Rightarrow> bool" where
  "js_space c = (char_code c \<in> {9, 10, 11, 12, 13, 32, 160})"

definition js_trim :: "string \<Rightarrow> string" where
  "js_trim s = rev (dropWhile js_space (rev (dropWhile js_space s)))"

text \<open>\<open>t.includes(n)\<close>: \<open>n\<close> occurs in \<open>t\<close> as a contiguous substring.\<close>

fun starts_with :: "string \<Rightarrow> string \<Rightarrow> bool" where
  "starts_with t [] = True"
| "starts_with [] (c # n) = False"
| "starts_with (d # t) (c # n) = (d = c \<and> starts_with t n)"

fun js_includes :: "string \<Rightarrow> string \<Rightarrow> bool" where
  "js_includes [] n = (n = [])"
| "js_includes (d # t) n = (starts_with (d # t) n \<or> js_includes t n)"

section \<open>The scoring script: match tiers and scores\<close>

datatype tier = Exact | Exact_unit | Partial

text \<open>
  \<open>containsNumberLike(text, n, unit)\<close> returns \<open>'exact'\<close>, \<open>'exact_unit'\<close>, \<open>'partial'\<close>
  or \<open>false\<close>; \<open>false\<close> is \<open>None\<close> here. The empty string is falsy in JavaScript, for
  \<open>text\<close> and for \<open>unit\<close>.
\<close>

definition containsNumberLike :: "string \<Rightarrow> string \<Rightarrow> string \<Rightarrow> tier option" where
  "containsNumberLike text n unit =
     (if text = [] then None
      else let t = js_trim text in
        if t = n then Some Exact
        else if unit \<noteq> [] \<and> (t = n @ unit \<or> t = n @ '' '' @ unit) then Some Exact_unit
        else if js_includes t n then Some Partial
        else None)"

text \<open>\<open>base = match === 'exact' ? 60 : (match === 'exact_unit' ? 45 : 10)\<close>\<close>

definition base :: "tier \<Rightarrow> real" where
  "base m = (if m = Exact then 60 else (if m = Exact_unit then 45 else 10))"

record DOMRect =
  rect_x :: real
  rect_y :: real
  width :: real
  height :: real

text \<open>
  \<open>areaScore(rect)\<close>. JavaScript numbers are binary64 floats; the score is modelled over
  the reals, of which the float operations are monotone roundings.
\<close>

definition areaScore :: "DOMRect \<Rightarrow> real" where
  "areaScore r = (let area = max 1 (width r * height r) in 1000 / max 1 (sqrt area))"

text \<open>The score of a matching leaf: \<open>base + areaScore(rect)\<close>, plus 20 when
  \<open>hasNeighborLabel\<close> holds.\<close>

definition score_of :: "tier \<Rightarrow> DOMRect \<Rightarrow> bool \<Rightarrow> real" where
  "score_of m r neighbor = (let s = base m + areaScore r in if neighbor then s + 20 else s)"

record candidate =
  elText :: string
  path :: string
  rect :: DOMRect
  score :: real

text \<open>
  \<open>candidates.sort((a, b) => b.score - a.score)\<close>: \<open>Array.prototype.sort\<close> is a stable
  sort; with this comparator it orders by descending score. \<open>slice(0, 5)\<close> keeps the
  first five.
\<close>

definition sort_candidates :: "candidate list \<Rightarrow> candidate list" where
  "sort_candidates cs = sort_key (\<lambda>c. - score c) cs"

definition top5 :: "candidate list \<Rightarrow> candidate list" where
  "top5 cs = take 5 (sort_candidates cs)"

section \<open>The document\<close>

text \<open>
  The rendered document, as far as the script reads it. An element carries the properties
  the script looks at and its element children; text nodes appear only through
  \<open>innerText\<close> and \<open>textContent\<close>, which the browser computes. An element is referred to
  by its position: the child indices on the way from the root element to it.
\<close>

record node =
  tagName :: string
  elem_id :: string
  classList :: "string list"
  innerText :: string
  textContent :: string
  visibility :: string
  display :: string
  boundingRect :: DOMRect

datatype element = Element (props: node) (children: "element list")

type_synonym pos = "nat list"

record document =
  documentElement :: element
  body :: pos

fun el_at :: "element \<Rightarrow> pos \<Rightarrow> element option" where
  "el_at e [] = Some e"
| "el_at e (i # p) = (if i < length (children e) then el_at (children e ! i) p else None)"

definition element_at :: "document \<Rightarrow> pos \<Rightarrow> element option" where
  "element_at doc p = el_at (documentElement doc) p"

text \<open>\<open>cur.parentElement\<close>: \<open>null\<close> for the root element.\<close>

definition parentElement :: "pos \<Rightarrow> pos option" where
  "parentElement p = (if p = [] then None else Some (butlast p))"

text \<open>The proper descendants of the element at position \<open>p\<close>, in document order.\<close>

fun descendants :: "pos \<Rightarrow> element \<Rightarrow> pos list"
  and descendants_from :: "pos \<Rightarrow> nat \<Rightarrow> element list \<Rightarrow> pos list" where
  "descendants p (Element a cs) = descendants_from p 0 cs"
| "descendants_from p i [] = []"
| "descendants_from p i (c # cs) =
     (p @ [i]) # descendants (p @ [i]) c @ descendants_from p (Suc i) cs"

text \<open>\<open>document.querySelectorAll('body *')\<close>\<close>

definition body_descendants :: "document \<Rightarrow> pos list" where
  "body_descendants doc =
     (case element_at doc (body doc) of None \<Rightarrow> [] | Some b \<Rightarrow> descendants (body doc) b)"

text \<open>\<open>document.querySelectorAll('#' + CSS.escape(id)).length\<close>: the number of elements of
  the document with this id.\<close>

definition count_id :: "document \<Rightarrow> string \<Rightarrow> nat" where
  "count_id doc i =
     length (filter (\<lambda>p. case element_at doc p of None \<Rightarrow> False
                            | Some e \<Rightarrow> elem_id (props e) = i)
               ([] # descendants [] (documentElement doc)))"

subsection \<open>Helpers of the script\<close>

definition is_digit :: "char \<Rightarrow> bool" where
  "is_digit c = (48 \<le> char_code c \<and> char_code c \<le> 57)"

definition is_upper :: "char \<Rightarrow> bool" where
  "is_upper c = (65 \<le> char_code c \<and> char_code c \<le> 90)"

definition is_lower :: "char \<Rightarrow> bool" where
  "is_lower c = (97 \<le> char_code c \<and> char_code c \<le> 122)"

text \<open>\<open>toLowerCase\<close> and Python's \<open>lower\<close> on code points below 256: the ASCII capitals
  and the capitals of Latin-1 (all of 192..222 but the multiplication sign 215).\<close>

definition lower_char :: "char \<Rightarrow> char" where
  "lower_char c =
     (let u = char_code c in
      if (65 \<le> u \<and> u \<le> 90) \<or> (192 \<le> u \<and> u \<le> 222 \<and> u \<noteq> 215) then char_of (u + 32) else c)"

definition toLowerCase :: "string \<Rightarrow> string" where
  "toLowerCase s = map lower_char s"

text \<open>\<open>a || b\<close> on strings: the empty string is falsy.\<close>

definition js_or :: "string \<Rightarrow> string \<Rightarrow> string" where
  "js_or a b = (if a \<noteq> [] then a else b)"

definition digit_char :: "nat \<Rightarrow> char" where
  "digit_char d = char_of (48 + d)"

fun string_of_nat :: "nat \<Rightarrow> string" where
  "string_of_nat n =
     (if n < 10 then [digit_char n] else string_of_nat (n div 10) @ [digit_char (n mod 10)])"

declare string_of_nat.simps [simp del]

definition hex_char :: "nat \<Rightarrow> char" where
  "hex_char d = (if d < 10 then char_of (48 + d) else char_of (87 + d))"

text \<open>\<open>codeUnit.toString(16)\<close> for a code unit below 256.\<close>

definition hex_string :: "nat \<Rightarrow> string" where
  "hex_string u = (if u < 16 then [hex_char u] else [hex_char (u div 16), hex_char (u mod 16)])"

definition backslash :: char where
  "backslash = char_of (92 :: nat)"

text \<open>
  \<open>CSS.escape\<close>, after the serialisation of an identifier in the CSS Object Model.
  U+0000 becomes U+FFFD there, which is no code point below 256; it is written here as
  the escape of that code point.
\<close>

definition css_escape_at :: "string \<Rightarrow> nat \<Rightarrow> string" where
  "css_escape_at s i =
     (let c = s ! i; u = char_code c in
      if u = 0 then backslash # ''fffd ''
      else if (1 \<le> u \<and> u \<le> 31) \<or> u = 127 then backslash # hex_string u @ '' ''
      else if i = 0 \<and> is_digit c then backslash # hex_string u @ '' ''
      else if i = 1 \<and> is_digit c \<and> s ! 0 = CHR ''-'' then backslash # hex_string u @ '' ''
      else if i = 0 \<and> length s = 1 \<and> c = CHR ''-'' then [backslash, c]
      else if 128 \<le> u \<or> c = CHR ''-'' \<or> c = CHR ''_'' \<or> is_digit c \<or> is_upper c \<or> is_lower c
        then [c]
      else [backslash, c])"

definition CSS_escape :: "string \<Rightarrow> string" where
  "CSS_escape s = concat (map (css_escape_at s) [0..<length s])"

fun join :: "string \<Rightarrow> string list \<Rightarrow> string" where
  "join sep [] = []"
| "join sep [x] = x"
| "join sep (x # y # xs) = x @ sep @ join sep (y # xs)"

definition isVisible :: "element \<Rightarrow> bool" where
  "isVisible el =
     (if visibility (props el) = ''hidden'' \<or> display (props el) = ''none'' then False
      else if width (boundingRect (props el)) \<le> 0 \<or> height (boundingRect (props el)) \<le> 0
        then False
      else True)"

definition textOf :: "element \<Rightarrow> string" where
  "textOf el = js_trim (js_or (innerText (props el)) (js_or (textContent (props el)) []))"

definition hasNeighborLabel :: "document \<Rightarrow> pos \<Rightarrow> string \<Rightarrow> bool" where
  "hasNeighborLabel doc p label =
     (if label = [] then False
      else case parentElement p of
        None \<Rightarrow> False
      | Some pp \<Rightarrow>
          (case element_at doc pp of
             None \<Rightarrow> False
           | Some parent \<Rightarrow>
               let near = js_or (innerText (props parent)) (js_or (textContent (props parent)) [])
               in js_includes (toLowerCase near) (toLowerCase label)))"

subsection \<open>The path synthesizer\<close>

text \<open>The class part of a segment: the first two class tokens without a digit.\<close>

definition class_part :: "string list \<Rightarrow> string" where
  "class_part cl =
     concat (map (\<lambda>c. CHR ''.'' # CSS_escape c)
               (take 2 (filter (\<lambda>c. c \<noteq> [] \<and> \<not> list_ex is_digit c) cl)))"

text \<open>The \<open>:nth-of-type\<close> part: the rank of the element among the children of its parent
  with the same tag; empty for the root element, which has no parent.\<close>

definition nth_of_type_part :: "document \<Rightarrow> pos \<Rightarrow> element \<Rightarrow> string" where
  "nth_of_type_part doc p cur =
     (case parentElement p of
        None \<Rightarrow> []
      | Some pp \<Rightarrow>
          (case element_at doc pp of
             None \<Rightarrow> []
           | Some parent \<Rightarrow>
               let tag = toLowerCase (tagName (props cur));
                   earlier = filter (\<lambda>x. toLowerCase (tagName (props x)) = tag)
                              (take (last p) (children parent));
                   idx = length earlier + 1
               in '':nth-of-type('' @ string_of_nat idx @ '')''))"

definition segment :: "document \<Rightarrow> pos \<Rightarrow> element \<Rightarrow> string" where
  "segment doc p cur =
     (let part = toLowerCase (tagName (props cur));
          part = (if length (classList (props cur)) > 0
                  then part @ class_part (classList (props cur)) else part)
      in part @ nth_of_type_part doc p cur)"

text \<open>
  The loop of \<open>cssPath\<close>: \<open>cur\<close> is \<open>None\<close> for \<open>null\<close>; \<open>parts.unshift(part)\<close> puts the
  segment in front; the test \<open>parts.length > 6\<close> comes after it.
\<close>

function cssPath_loop :: "document \<Rightarrow> pos option \<Rightarrow> string list \<Rightarrow> string list" where
  "cssPath_loop doc None parts = parts"
| "cssPath_loop doc (Some p) parts =
     (case element_at doc p of
        None \<Rightarrow> parts
      | Some cur \<Rightarrow>
          if p = body doc then parts
          else let parts' = segment doc p cur # parts
               in if length parts' > 6 then parts'
                  else cssPath_loop doc (parentElement p) parts')"
  by pat_completeness auto
termination
  by (relation "measure (\<lambda>(doc, cur, parts). case cur of None \<Rightarrow> 0 | Some p \<Rightarrow> Suc (length p))")
     (auto simp: parentElement_def)

definition cssPath_parts :: "document \<Rightarrow> pos \<Rightarrow> string list" where
  "cssPath_parts doc p = cssPath_loop doc (Some p) []"

definition cssPath :: "document \<Rightarrow> pos \<Rightarrow> string" where
  "cssPath doc p =
     (case element_at doc p of
        None \<Rightarrow> []
      | Some el \<Rightarrow>
          if elem_id (props el) \<noteq> [] \<and> count_id doc (elem_id (props el)) = 1
          then CHR ''#'' # CSS_escape (elem_id (props el))
          else join '' > '' (cssPath_parts doc p))"

subsection \<open>The candidates\<close>

text \<open>The leaves under the body, in document order.\<close>

definition elements :: "document \<Rightarrow> pos list" where
  "elements doc =
     filter (\<lambda>p. case element_at doc p of None \<Rightarrow> False | Some el \<Rightarrow> children el = [])
       (body_descendants doc)"

text \<open>One round of the loop over \<open>elements\<close>: \<open>None\<close> is \<open>continue\<close>.\<close>

definition candidate_of :: "document \<Rightarrow> string \<Rightarrow> string \<Rightarrow> string \<Rightarrow> pos \<Rightarrow> candidate option" where
  "candidate_of doc numStr labelStr unitStr p =
     (case element_at doc p of
        None \<Rightarrow> None
      | Some el \<Rightarrow>
          if \<not> isVisible el then None
          else let t = textOf el in
            (case containsNumberLike t numStr unitStr of
               None \<Rightarrow> None
             | Some match \<Rightarrow>
                 Some \<lparr>elText = t, path = cssPath doc p, rect = boundingRect (props el),
                       score = score_of match (boundingRect (props el))
                                 (hasNeighborLabel doc p labelStr)\<rparr>))"

definition candidates :: "document \<Rightarrow> string \<Rightarrow> string \<Rightarrow> string \<Rightarrow> candidate list" where
  "candidates doc numStr labelStr unitStr =
     List.map_filter (candidate_of doc numStr labelStr unitStr) (elements doc)"

text \<open>The value of the script for the three strings put in place of its placeholders.\<close>

definition SELECTOR_JS :: "document \<Rightarrow> string \<Rightarrow> string \<Rightarrow> string \<Rightarrow> candidate list" where
  "SELECTOR_JS doc numStr labelStr unitStr = top5 (candidates doc numStr labelStr unitStr)"

section \<open>Regular expressions\<close>

text \<open>
  The patterns of the program use character classes, concatenation, greedy \<open>?\<close>, and
  greedy \<open>*\<close> and \<open>+\<close> over a character class, and \<open>$\<close>. Python's \<open>re\<close> matches by
  backtracking: \<open>rests r s\<close> lists what is left of \<open>s\<close> after each way \<open>r\<close> matches a
  prefix of it, in the order in which the backtracking matcher tries them (greedy: the
  longest repetition first). The first entry is the match \<open>re\<close> reports.
\<close>

datatype regex =
    Cls "char \<Rightarrow> bool"
  | Seq regex regex
  | Opt regex
  | Star "char \<Rightarrow> bool"
  | Plus "char \<Rightarrow> bool"
  | Eol

fun star_rests :: "(char \<Rightarrow> bool) \<Rightarrow> string \<Rightarrow> string list" where
  "star_rests P [] = [[]]"
| "star_rests P (c # s) = (if P c then star_rests P s @ [c # s] else [c # s])"

fun rests :: "regex \<Rightarrow> string \<Rightarrow> string list" where
  "rests (Cls P) s = (case s of [] \<Rightarrow> [] | c # t \<Rightarrow> if P c then [t] else [])"
| "rests (Seq a b) s = concat (map (rests b) (rests a s))"
| "rests (Opt a) s = rests a s @ [s]"
| "rests (Star P) s = star_rests P s"
| "rests (Plus P) s = (case s of [] \<Rightarrow> [] | c # t \<Rightarrow> if P c then star_rests P t else [])"
| "rests Eol s = (if s = [] \<or> s = [char_of (10 :: nat)] then [s] else [])"

text \<open>\<open>r.match(s)\<close>, as \<open>group(0)\<close>: the matched prefix.\<close>

definition re_match :: "regex \<Rightarrow> string \<Rightarrow> string option" where
  "re_match r s = (case rests r s of [] \<Rightarrow> None | t # _ \<Rightarrow> Some (take (length s - length t) s))"

text \<open>\<open>r.search(s)\<close>, as \<open>group(0)\<close>: the match at the leftmost position that has one.\<close>

fun re_search :: "regex \<Rightarrow> string \<Rightarrow> string option" where
  "re_search r [] = re_match r []"
| "re_search r (c # s) =
     (case re_match r (c # s) of Some m \<Rightarrow> Some m | None \<Rightarrow> re_search r s)"

text \<open>\<open>NumberRe = re.compile(r"[-+]?\d+(?:\.\d+)?")\<close>; among the code points below 256,
  \<open>\d\<close> matches the ASCII digits.\<close>

definition NumberRe :: regex where
  "NumberRe =
     Seq (Opt (Cls (\<lambda>c. c = CHR ''-'' \<or> c = CHR ''+'')))
       (Seq (Plus is_digit) (Opt (Seq (Cls (\<lambda>c. c = CHR ''.'')) (Plus is_digit))))"

section \<open>Numbers\<close>

text \<open>The value of a string of decimal digits.\<close>

definition int_of_digits :: "string \<Rightarrow> int" where
  "int_of_digits ds = foldl (\<lambda>a c. 10 * a + int (char_code c - 48)) 0 ds"

text \<open>
  \<open>float(s)\<close> on a decimal numeral: digits, optionally a point and digits, optionally a
  sign in front; \<open>None\<close> is \<open>ValueError\<close>. The value is the number the numeral denotes;
  Python rounds it to the nearest binary64. The other notations \<open>float\<close> accepts
  (exponents, \<open>inf\<close>, \<open>nan\<close>, underscores, a bare point, white space) do not occur in a
  match of \<open>NumberRe\<close>, the only argument the program passes.
\<close>

definition unsigned_float :: "string \<Rightarrow> real option" where
  "unsigned_float s =
     (let ip = takeWhile is_digit s; r = dropWhile is_digit s in
      if ip = [] then None
      else case r of
        [] \<Rightarrow> Some (of_int (int_of_digits ip))
      | c # fp \<Rightarrow>
          if c = CHR ''.'' \<and> fp \<noteq> [] \<and> list_all is_digit fp
          then Some (of_int (int_of_digits ip) + of_int (int_of_digits fp) / 10 ^ length fp)
          else None)"

definition py_float :: "string \<Rightarrow> real option" where
  "py_float s =
     (case s of
        [] \<Rightarrow> None
      | c # t \<Rightarrow>
          if c = CHR ''-'' then map_option uminus (unsigned_float t)
          else if c = CHR ''+'' then unsigned_float t
          else unsigned_float s)"

section \<open>Learning and applying selectors\<close>

record LabelValue =
  label :: string
  value_str :: string
  value_float :: "real option"
  unit :: "string option"

text \<open>
  The browser is outside the program. A loaded page is its document together with the
  selector engine: \<open>querySelector pg sel\<close> is the first element the selector \<open>sel\<close>
  matches, \<open>None\<close> when it matches none or is no selector. Opening a page at a URL
  (\<open>launch\<close>, \<open>new_page\<close>, \<open>goto\<close>) gives a page or raises.
\<close>

datatype error = NavigationError | SelectorError

record page =
  page_document :: document
  querySelector :: "string \<Rightarrow> pos option"

type_synonym browser = "string \<Rightarrow> error + page"

text \<open>A dictionary is an association list with distinct keys, in insertion order;
  \<open>d[k] = v\<close> is \<^const>\<open>AList.update\<close>.\<close>

type_synonym entry = "(string \<times> string) list"

type_synonym selectors = "(string \<times> entry) list"

type_synonym results = "(string \<times> real option) list"

text \<open>\<open>page.eval_on_selector(sel, "el => (el.innerText || el.textContent || '').trim()")\<close>
  raises when no element matches.\<close>

definition eval_on_selector :: "page \<Rightarrow> string \<Rightarrow> error + string" where
  "eval_on_selector pg sel =
     (case querySelector pg sel of
        None \<Rightarrow> Inl SelectorError
      | Some p \<Rightarrow>
          (case element_at (page_document pg) p of
             None \<Rightarrow> Inl SelectorError
           | Some el \<Rightarrow> Inr (textOf el)))"

definition make_entry :: "string \<Rightarrow> string \<Rightarrow> entry" where
  "make_entry sel expect = [(''selector'', sel), (''type'', ''text''), (''expect'', expect)]"

text \<open>The body of the loop of \<open>learn_selectors\<close> for one label.\<close>

definition learn_label :: "page \<Rightarrow> LabelValue \<Rightarrow> entry" where
  "learn_label pg lv =
     (let topk = SELECTOR_JS (page_document pg) (value_str lv) (label lv)
                   (case unit lv of None \<Rightarrow> [] | Some u \<Rightarrow> u)
      in case topk of
           [] \<Rightarrow> make_entry [] (value_str lv)
         | best # _ \<Rightarrow>
             if path best \<noteq> [] then make_entry (path best) (value_str lv)
             else make_entry [] (value_str lv))"

fun learn_loop :: "page \<Rightarrow> LabelValue list \<Rightarrow> selectors \<Rightarrow> selectors" where
  "learn_loop pg [] sels = sels"
| "learn_loop pg (lv # lvs) sels =
     learn_loop pg lvs (AList.update (label lv) (learn_label pg lv) sels)"

definition learn_selectors :: "browser \<Rightarrow> string \<Rightarrow> LabelValue list \<Rightarrow> error + selectors" where
  "learn_selectors goto url labels =
     (case goto url of Inl e \<Rightarrow> Inl e | Inr pg \<Rightarrow> Inr (learn_loop pg labels []))"

text \<open>The first numeral of a text as a float; \<open>None\<close> for the empty text, for a text
  without numeral, and when \<open>float\<close> raises.\<close>

definition number_of_text :: "string \<Rightarrow> real option" where
  "number_of_text t =
     (if t \<noteq> [] then
        (case re_search NumberRe t of None \<Rightarrow> None | Some m \<Rightarrow> py_float m)
      else None)"

text \<open>
  The body of the loop of \<open>apply_selectors\<close> for one entry: the value, and the selectors
  handed to \<open>eval_on_selector\<close> on the way. An exception inside \<open>try\<close> leaves \<open>None\<close>.
\<close>

definition apply_entry :: "page \<Rightarrow> entry \<Rightarrow> real option \<times> string list" where
  "apply_entry pg meta =
     (let sel = (case map_of meta ''selector'' of None \<Rightarrow> [] | Some s \<Rightarrow> s) in
      if sel \<noteq> [] then
        (case eval_on_selector pg sel of
           Inl e \<Rightarrow> (None, [sel])
         | Inr t \<Rightarrow> (number_of_text t, [sel]))
      else (number_of_text [], []))"

fun apply_loop :: "page \<Rightarrow> selectors \<Rightarrow> results \<Rightarrow> results" where
  "apply_loop pg [] res = res"
| "apply_loop pg ((l, meta) # sels) res =
     apply_loop pg sels (AList.update l (fst (apply_entry pg meta)) res)"

definition apply_selectors :: "browser \<Rightarrow> string \<Rightarrow> selectors \<Rightarrow> error + results" where
  "apply_selectors goto url sels =
     (case goto url of Inl e \<Rightarrow> Inl e | Inr pg \<Rightarrow> Inr (apply_loop pg sels []))"

section \<open>The label extractor\<close>

text \<open>White space for Python's \<open>str.strip\<close> and for \<open>\s\<close> in a pattern, among the code
  points below 256: TAB to CR, FS to US, SPACE, NEL and NBSP.\<close>

definition py_space :: "char \<Rightarrow> bool" where
  "py_space c = (char_code c \<in> {9, 10, 11, 12, 13, 28, 29, 30, 31, 32, 133, 160})"

definition py_strip :: "string \<Rightarrow> string" where
  "py_strip s = rev (dropWhile py_space (rev (dropWhile py_space s)))"

text \<open>The character class \<open>[A-Za-z /]\<close>.\<close>

definition label_char :: "char \<Rightarrow> bool" where
  "label_char c = (is_upper c \<or> is_lower c \<or> c = CHR '' '' \<or> c = CHR ''/'')"

text \<open>\<open>.\<close> matches every character but the newline.\<close>

definition not_newline :: "char \<Rightarrow> bool" where
  "not_newline c = (char_code c \<noteq> 10)"

text \<open>
  \<open>re.match(r"^\s*([A-Za-z /]+)\s*:?\s*(.+)$", s)\<close>, as the pair of its two groups.
  The alternatives are listed in the order of the backtracking matcher, each generator
  being one part of the pattern; the first one is the match.
\<close>

definition label_match :: "string \<Rightarrow> (string \<times> string) option" where
  "label_match s =
     (case [(take (length r0 - length r1) r0, take (length r2 - length r3) r2).
              r0 \<leftarrow> rests (Star py_space) s,
              r1 \<leftarrow> rests (Plus label_char) r0,
              r2 \<leftarrow> rests (Seq (Star py_space)
                            (Seq (Opt (Cls (\<lambda>c. c = CHR '':''))) (Star py_space))) r1,
              r3 \<leftarrow> rests (Plus not_newline) r2,
              r4 \<leftarrow> rests Eol r3] of
        [] \<Rightarrow> None
      | g # _ \<Rightarrow> Some g)"

text \<open>The pattern \<open>[a-zA-Z%]+$\<close> of the unit.\<close>

definition unit_re :: regex where
  "unit_re = Seq (Plus (\<lambda>c. is_lower c \<or> is_upper c \<or> c = CHR ''%'')) Eol"

text \<open>The body of the loop of \<open>parse_important\<close> for one line; \<open>None\<close> is \<open>continue\<close>.\<close>

definition parse_line :: "string \<Rightarrow> LabelValue option" where
  "parse_line raw =
     (let s = py_strip raw in
      if s = [] then None
      else if starts_with (toLowerCase s) ''name:'' \<or> starts_with (toLowerCase s) ''gender:''
        then None
      else if starts_with (toLowerCase s) ''time/date'' then None
      else case label_match s of
        None \<Rightarrow> None
      | Some (g1, g2) \<Rightarrow>
          let lab = py_strip g1; rest = py_strip g2 in
          (case re_search NumberRe rest of
             None \<Rightarrow> None
           | Some vs \<Rightarrow>
               Some \<lparr>label = lab, value_str = vs, value_float = py_float vs,
                     unit = re_search unit_re rest\<rparr>))"

text \<open>\<open>parse_important\<close> on the lines of the file (\<open>read_text(...).splitlines()\<close>).\<close>

definition parse_important :: "string list \<Rightarrow> LabelValue list" where
  "parse_important lines = List.map_filter parse_line lines"

section \<open>The date key of a URL\<close>



















section \<open>Example documents\<close>

text \<open>A visible element of 100 by 25 pixels without id and classes.\<close>

definition plain :: "string \<Rightarrow> string \<Rightarrow> node" where
  "plain tag txt =
     \<lparr>tagName = tag, elem_id = [], classList = [], innerText = txt, textContent = txt,
      visibility = ''visible'', display = ''block'',
      boundingRect = \<lparr>rect_x = 0, rect_y = 0, width = 100, height = 25\<rparr>\<rparr>"

text \<open>\<open>k\<close> nested \<open>div\<close> elements around an element.\<close>

fun nest :: "nat \<Rightarrow> element \<Rightarrow> element" where
  "nest 0 e = e"
| "nest (Suc k) e = Element (plain ''DIV'' (innerText (props e))) [nest k e]"

text \<open>A \<open>span\<close> with the text 62.5, seven levels below the body.\<close>

definition deep_doc :: document where
  "deep_doc =
     \<lparr>documentElement =
        Element (plain ''HTML'' ''62.5'')
          [Element (plain ''HEAD'' []) [],
           Element (plain ''BODY'' ''62.5'') [nest 6 (Element (plain ''SPAN'' ''62.5'') [])]],
      body = [1]\<rparr>"

text \<open>A document whose body holds one \<open>span\<close> with the given text, the page of it, on
  which the selector of that \<open>span\<close> resolves to it, and a browser that opens this page
  at every URL.\<close>

definition report_doc :: "string \<Rightarrow> document" where
  "report_doc txt =
     \<lparr>documentElement =
        Element (plain ''HTML'' txt)
          [Element (plain ''HEAD'' []) [],
           Element (plain ''BODY'' txt) [Element (plain ''SPAN'' txt) []]],
      body = [1]\<rparr>"

definition report_page :: "string \<Rightarrow> page" where
  "report_page txt =
     \<lparr>page_document = report_doc txt,
      querySelector = (\<lambda>sel. if sel = ''span:nth-of-type(1)'' then Some [1, 0] else None)\<rparr>"

definition open_report :: "string \<Rightarrow> browser" where
  "open_report txt = (\<lambda>url. Inr (report_page txt))"

text \<open>A candidate with the given path and score.\<close>

definition cand :: "string \<Rightarrow> real \<Rightarrow> candidate" where
  "cand p s =
     \<lparr>elText = ''62.5'', path = p,
      rect = \<lparr>rect_x = 0, rect_y = 0, width = 100, height = 25\<rparr>, score = s\<rparr>"

section \<open>Properties of the match classification\<close>

lemma starts_with_iff: "starts_with t n \<longleftrightarrow> prefix n t"
  by (induction t n rule: starts_with.induct) auto

lemma includes_iff: "js_includes t n \<longleftrightarrow> sublist n t"
  by (induction t) (auto simp: starts_with_iff sublist_Cons_right)

lemma includes_self: "js_includes t t"
  by (simp add: includes_iff)

lemma includes_Nil_left: "js_includes [] n \<Longrightarrow> n = []"
  by simp

text \<open>
  Claim C5. The classification checks exact, then exact\_unit, then partial, then discards:
  for a numeral \<open>n\<close> (a non-empty string), a text whose trimmed form equals \<open>n\<close> is
  \<open>exact\<close>; otherwise, when a unit is supplied and the trimmed text is the numeral followed
  by the unit, with or without one space, it is \<open>exact_unit\<close>; otherwise, when the numeral
  occurs in the trimmed text, it is \<open>partial\<close>; otherwise the element is discarded. The base
  scores are 60, 45 and 10, and the text \<open>62.5kg\<close> against numeral \<open>62.5\<close> and unit
  \<open>kg\<close> is \<open>exact_unit\<close> with base 45.
\<close>

theorem C5_match_classification:
  assumes "n \<noteq> []"
  shows "containsNumberLike text n u =
           (if js_trim text = n then Some Exact
            else if u \<noteq> [] \<and> (js_trim text = n @ u \<or> js_trim text = n @ '' '' @ u)
              then Some Exact_unit
            else if js_includes (js_trim text) n then Some Partial
            else None) \<and>
         base Exact = 60 \<and> base Exact_unit = 45 \<and> base Partial = 10 \<and>
         containsNumberLike ''62.5kg'' ''62.5'' ''kg'' = Some Exact_unit"
proof -
  have trim_Nil: "js_trim [] = []"
    by (simp add: js_trim_def)
  have "containsNumberLike text n u =
           (if js_trim text = n then Some Exact
            else if u \<noteq> [] \<and> (js_trim text = n @ u \<or> js_trim text = n @ '' '' @ u)
              then Some Exact_unit
            else if js_includes (js_trim text) n then Some Partial
            else None)"
    using assms trim_Nil by (auto simp: containsNumberLike_def Let_def)
  moreover have "base Exact = 60 \<and> base Exact_unit = 45 \<and> base Partial = 10"
    by (simp add: base_def)
  moreover have "containsNumberLike ''62.5kg'' ''62.5'' ''kg'' = Some Exact_unit"
    by (simp add: containsNumberLike_def js_trim_def js_space_def char_code_def)
  ultimately show ?thesis by blast
qed

theorem C5_match_classification_witness:
  "''62.5'' \<noteq> [] \<and>
   containsNumberLike '' 62.5 '' ''62.5'' ''kg'' = Some Exact \<and>
   containsNumberLike ''62.5 kg'' ''62.5'' ''kg'' = Some Exact_unit \<and>
   containsNumberLike ''Weight 62.5'' ''62.5'' ''kg'' = Some Partial \<and>
   containsNumberLike ''61.5'' ''62.5'' ''kg'' = None"
  using C5_match_classification [of "''62.5''" "'' 62.5 ''" "''kg''"]
    C5_match_classification [of "''62.5''" "''62.5 kg''" "''kg''"]
    C5_match_classification [of "''62.5''" "''Weight 62.5''" "''kg''"]
    C5_match_classification [of "''62.5''" "''61.5''" "''kg''"]
  by (simp add: js_trim_def js_space_def char_code_def)

section \<open>Properties of the score\<close>

lemma sqrt_400: "sqrt 400 = 20"
  by (simp add: real_sqrt_unique)

lemma sqrt_625: "sqrt 625 = 25"
  by (simp add: real_sqrt_unique)

lemma sqrt_2500: "sqrt 2500 = 50"
  by (simp add: real_sqrt_unique)

lemma areaScore_antimono:
  assumes "width r1 * height r1 \<le> width r2 * height r2"
  shows "areaScore r2 \<le> areaScore r1"
proof -
  have "max 1 (width r1 * height r1) \<le> max 1 (width r2 * height r2)"
    using assms by simp
  then have "sqrt (max 1 (width r1 * height r1)) \<le> sqrt (max 1 (width r2 * height r2))"
    by simp
  then have le: "max 1 (sqrt (max 1 (width r1 * height r1)))
                  \<le> max 1 (sqrt (max 1 (width r2 * height r2)))"
    by simp
  have pos: "0 < max 1 (sqrt (max 1 (width r1 * height r1)))"
    by simp
  show ?thesis
    unfolding areaScore_def Let_def
    using le pos by (intro divide_left_mono) (auto intro: mult_pos_pos)
qed

text \<open>
  Claim C3, as stated, fails: two candidates of the tier \<open>exact\<close>, the one of 20 by 20
  pixels without the label in its parent's text, the other of 25 by 25 pixels with it.
  The larger one scores 120, the smaller one 110.
\<close>

theorem C3_larger_area_higher_score:
  "width \<lparr>rect_x = 0, rect_y = 0, width = 20, height = 20\<rparr>
     * height \<lparr>rect_x = 0, rect_y = 0, width = 20, height = 20\<rparr>
   < width \<lparr>rect_x = 0, rect_y = 0, width = 25, height = 25\<rparr>
     * height \<lparr>rect_x = 0, rect_y = 0, width = 25, height = 25\<rparr> \<and>
   score_of Exact \<lparr>rect_x = 0, rect_y = 0, width = 20, height = 20\<rparr> False = 110 \<and>
   score_of Exact \<lparr>rect_x = 0, rect_y = 0, width = 25, height = 25\<rparr> True = 120 \<and>
   score_of Exact \<lparr>rect_x = 0, rect_y = 0, width = 20, height = 20\<rparr> False
   < score_of Exact \<lparr>rect_x = 0, rect_y = 0, width = 25, height = 25\<rparr> True"
  by (simp add: score_of_def areaScore_def base_def sqrt_400 sqrt_625)

text \<open>
  Claim C3, amended: for two candidates of the same match tier and with the same outcome
  of the neighbour-label test, the one with the larger bounding-box area never has the
  strictly higher score.
\<close>

theorem C3_score_antimono_in_area:
  assumes "width r1 * height r1 \<le> width r2 * height r2"
  shows "score_of m r2 nb \<le> score_of m r1 nb"
  using areaScore_antimono [OF assms] by (simp add: score_of_def Let_def)

theorem C3_score_antimono_in_area_witness:
  "width \<lparr>rect_x = 0, rect_y = 0, width = 20, height = 20\<rparr>
     * height \<lparr>rect_x = 0, rect_y = 0, width = 20, height = 20\<rparr>
   \<le> width \<lparr>rect_x = 0, rect_y = 0, width = 25, height = 25\<rparr>
     * height \<lparr>rect_x = 0, rect_y = 0, width = 25, height = 25\<rparr> \<and>
   score_of Exact \<lparr>rect_x = 0, rect_y = 0, width = 25, height = 25\<rparr> True
   \<le> score_of Exact \<lparr>rect_x = 0, rect_y = 0, width = 20, height = 20\<rparr> True"
  using C3_score_antimono_in_area
    [of "\<lparr>rect_x = 0, rect_y = 0, width = 20, height = 20\<rparr>"
        "\<lparr>rect_x = 0, rect_y = 0, width = 25, height = 25\<rparr>" Exact True]
  by simp

section \<open>Properties of the ranking\<close>

lemma sort_candidates_stable:
  "filter (\<lambda>c. score c = s) (sort_candidates cs) = filter (\<lambda>c. score c = s) cs"
proof -
  have "filter (\<lambda>c. - score c = - s) (sort_key (\<lambda>c. - score c) cs)
          = filter (\<lambda>c. - score c = - s) cs"
    by (rule sort_key_stable)
  then show ?thesis by (simp add: sort_candidates_def)
qed

lemma sort_candidates_sorted:
  "sorted_wrt (\<lambda>a b. score b \<le> score a) (sort_candidates cs)"
proof -
  have "sorted (map (\<lambda>c. - score c) (sort_key (\<lambda>c. - score c) cs))"
    by (rule sorted_sort_key)
  then show ?thesis by (simp add: sort_candidates_def sorted_map)
qed

lemma set_sort_candidates: "set (sort_candidates cs) = set cs"
  by (simp add: sort_candidates_def)

lemma top5_length: "length (top5 cs) \<le> 5"
  by (simp add: top5_def)

lemma top5_sorted: "sorted_wrt (\<lambda>a b. score b \<le> score a) (top5 cs)"
  unfolding top5_def by (rule sorted_wrt_take [OF sort_candidates_sorted])

lemma top5_ties:
  "prefix (filter (\<lambda>c. score c = s) (top5 cs)) (filter (\<lambda>c. score c = s) cs)"
proof -
  have "prefix (top5 cs) (sort_candidates cs)"
    by (simp add: top5_def take_is_prefix)
  then have "prefix (filter (\<lambda>c. score c = s) (top5 cs))
               (filter (\<lambda>c. score c = s) (sort_candidates cs))"
    by (rule filter_mono_prefix)
  then show ?thesis by (simp add: sort_candidates_stable)
qed

lemma hd_sorted_desc_max:
  assumes "sorted_wrt (\<lambda>a b. score b \<le> score a) xs" "c \<in> set xs"
  shows "score c \<le> score (hd xs)"
  using assms by (cases xs) auto

lemma filter_dropWhile_neq:
  "filter (\<lambda>c. f c = k) (dropWhile (\<lambda>c. f c \<noteq> k) xs) = filter (\<lambda>c. f c = k) xs"
  by (induction xs) auto

lemma top5_winner:
  assumes "cs \<noteq> []"
  shows "\<exists>pre post. cs = pre @ hd (top5 cs) # post \<and>
           (\<forall>c \<in> set pre. score c < score (hd (top5 cs))) \<and>
           (\<forall>c \<in> set post. score c \<le> score (hd (top5 cs)))"
proof -
  let ?ys = "sort_candidates cs"
  let ?w = "hd ?ys"
  have ne: "?ys \<noteq> []"
    using assms set_sort_candidates [of cs] by (metis set_empty)
  have hdeq: "hd (top5 cs) = ?w"
    using ne by (cases ?ys) (auto simp: top5_def)
  have mx: "\<And>c. c \<in> set cs \<Longrightarrow> score c \<le> score ?w"
    using hd_sorted_desc_max [OF sort_candidates_sorted] set_sort_candidates by blast
  have "hd (filter (\<lambda>c. score c = score ?w) ?ys) = ?w"
    using ne by (cases ?ys) auto
  then have fw: "hd (filter (\<lambda>c. score c = score ?w) cs) = ?w"
    by (simp add: sort_candidates_stable)
  have win: "?w \<in> set cs"
    using ne set_sort_candidates [of cs] hd_in_set by blast
  let ?pre = "takeWhile (\<lambda>c. score c \<noteq> score ?w) cs"
  let ?rest = "dropWhile (\<lambda>c. score c \<noteq> score ?w) cs"
  have restne: "?rest \<noteq> []"
    using win by (auto simp: dropWhile_eq_Nil_conv)
  have "filter (\<lambda>c. score c = score ?w) cs = filter (\<lambda>c. score c = score ?w) ?rest"
    by (simp add: filter_dropWhile_neq)
  moreover have "score (hd ?rest) = score ?w"
    using restne hd_dropWhile by blast
  ultimately have "hd ?rest = ?w"
    using fw restne by (cases ?rest) auto
  then have split: "cs = ?pre @ ?w # tl ?rest"
    using restne by (metis takeWhile_dropWhile_id list.collapse)
  have "\<forall>c \<in> set ?pre. score c < score ?w"
  proof
    fix c assume c: "c \<in> set ?pre"
    then have "score c \<noteq> score ?w" by (auto dest: set_takeWhileD)
    moreover have "score c \<le> score ?w" using c mx by (auto dest: set_takeWhileD)
    ultimately show "score c < score ?w" by simp
  qed
  moreover have "\<forall>c \<in> set (tl ?rest). score c \<le> score ?w"
  proof
    fix c assume "c \<in> set (tl ?rest)"
    then have "c \<in> set cs" by (metis list.set_sel(2) set_dropWhileD tl_Nil)
    then show "score c \<le> score ?w" by (rule mx)
  qed
  ultimately show ?thesis using split hdeq by metis
qed

text \<open>
  Claim C6. The list the script returns, \<open>top5\<close> of the candidates in enumeration order,
  has at most 5 entries and is sorted by descending score; the candidates of one score
  appear in it in their enumeration order (as a prefix of them, since the list is cut
  after five); and when there is a candidate at all, the first entry, the winner, is a
  candidate before which every candidate scores strictly less and after which none scores
  more: among the candidates of the highest score it is the one enumerated first.
\<close>

theorem C6_top5_stable_descending:
  "SELECTOR_JS doc n l u = top5 (candidates doc n l u) \<and>
   length (top5 cs) \<le> 5 \<and>
   sorted_wrt (\<lambda>a b. score b \<le> score a) (top5 cs) \<and>
   (\<forall>s. prefix (filter (\<lambda>c. score c = s) (top5 cs)) (filter (\<lambda>c. score c = s) cs)) \<and>
   (cs \<noteq> [] \<longrightarrow>
      (\<exists>pre post. cs = pre @ hd (top5 cs) # post \<and>
         (\<forall>c \<in> set pre. score c < score (hd (top5 cs))) \<and>
         (\<forall>c \<in> set post. score c \<le> score (hd (top5 cs)))))"
  using top5_length [of cs] top5_sorted [of cs] top5_ties [of _ cs] top5_winner [of cs]
  by (simp add: SELECTOR_JS_def)

theorem C6_top5_stable_descending_witness:
  "[cand ''a'' 10, cand ''b'' 80, cand ''c'' 80, cand ''d'' 30, cand ''e'' 80, cand ''f'' 5,
    cand ''g'' 70] \<noteq> [] \<and>
   top5 [cand ''a'' 10, cand ''b'' 80, cand ''c'' 80, cand ''d'' 30, cand ''e'' 80, cand ''f'' 5,
         cand ''g'' 70]
     = [cand ''b'' 80, cand ''c'' 80, cand ''e'' 80, cand ''g'' 70, cand ''d'' 30] \<and>
   (\<exists>pre post.
      [cand ''a'' 10, cand ''b'' 80, cand ''c'' 80, cand ''d'' 30, cand ''e'' 80, cand ''f'' 5,
       cand ''g'' 70] = pre @ cand ''b'' 80 # post \<and>
      (\<forall>c \<in> set pre. score c < 80) \<and> (\<forall>c \<in> set post. score c \<le> 80))"
proof -
  let ?cs = "[cand ''a'' 10, cand ''b'' 80, cand ''c'' 80, cand ''d'' 30, cand ''e'' 80,
              cand ''f'' 5, cand ''g'' 70]"
  have t: "top5 ?cs = [cand ''b'' 80, cand ''c'' 80, cand ''e'' 80, cand ''g'' 70, cand ''d'' 30]"
    by (simp add: top5_def sort_candidates_def cand_def)
  have h: "hd (top5 ?cs) = cand ''b'' 80" "score (cand ''b'' 80) = 80"
    by (simp_all add: t) (simp add: cand_def)
  show ?thesis
    using C6_top5_stable_descending [of deep_doc "''62.5''" "''Weight''" "''kg''" ?cs] t h
    by simp
qed

section \<open>Properties of the path synthesizer\<close>

lemma cssPath_loop_bound:
  "length (cssPath_loop doc cur parts) \<le> max (Suc (length parts)) 7"
  by (induction doc cur parts rule: cssPath_loop.induct)
     (auto simp: Let_def split: option.splits)

lemma cssPath_parts_bound: "length (cssPath_parts doc p) \<le> 7"
  using cssPath_loop_bound [of doc "Some p" "[]"] by (simp add: cssPath_parts_def)

text \<open>
  Claim C1 says that no locator has more than 6 segments. The loop tests
  \<open>parts.length > 6\<close> after it has put the segment in front, so it stops with 7 segments,
  not 6: for the \<open>span\<close> of \<open>deep_doc\<close>, seven levels below the body, \<open>cssPath\<close> gives a
  locator of 7 segments.
\<close>

theorem C1_cssPath_seven_segments:
  "length (cssPath_parts deep_doc [1, 0, 0, 0, 0, 0, 0, 0]) = 7 \<and>
   cssPath deep_doc [1, 0, 0, 0, 0, 0, 0, 0] =
     ''div:nth-of-type(1) > div:nth-of-type(1) > div:nth-of-type(1) > div:nth-of-type(1) > div:nth-of-type(1) > div:nth-of-type(1) > span:nth-of-type(1)''"
  by code_simp

section \<open>Properties of applying selectors\<close>

lemma update_fresh: "k \<notin> fst ` set al \<Longrightarrow> AList.update k v al = al @ [(k, v)]"
  by (induction al) auto

lemma apply_loop_distinct:
  "distinct (map fst sels) \<Longrightarrow> fst ` set sels \<inter> fst ` set res = {} \<Longrightarrow>
   apply_loop pg sels res = res @ map (\<lambda>(l, m). (l, fst (apply_entry pg m))) sels"
proof (induction sels arbitrary: res)
  case Nil
  then show ?case by simp
next
  case (Cons a sels)
  obtain l m where a: "a = (l, m)" by (cases a)
  have fresh: "l \<notin> fst ` set res" using Cons.prems a by auto
  have d: "distinct (map fst sels)" using Cons.prems by simp
  have disj: "fst ` set sels \<inter> fst ` set (res @ [(l, fst (apply_entry pg m))]) = {}"
    using Cons.prems a by auto
  show ?case
    using Cons.IH [OF d disj] a by (simp add: update_fresh [OF fresh])
qed

lemma apply_selectors_map:
  assumes "goto url = Inr pg" "distinct (map fst sels)"
  shows "apply_selectors goto url sels = Inr (map (\<lambda>(l, m). (l, fst (apply_entry pg m))) sels)"
  using assms apply_loop_distinct [of sels "[]" pg] by (simp add: apply_selectors_def)

lemma map_of_map_entry:
  "distinct (map fst sels) \<Longrightarrow> (l, m) \<in> set sels \<Longrightarrow>
   map_of (map (\<lambda>(l, m). (l, f m)) sels) l = Some (f m)"
  by (induction sels) (auto simp: rev_image_eqI)

lemma number_of_text_Nil: "number_of_text [] = None"
  by (simp add: number_of_text_def)

lemma apply_entry_empty:
  "map_of meta ''selector'' = Some [] \<Longrightarrow> apply_entry pg meta = (None, [])"
  by (simp add: apply_entry_def number_of_text_Nil)

lemma apply_entry_raises:
  "eval_on_selector pg (case map_of meta ''selector'' of None \<Rightarrow> [] | Some s \<Rightarrow> s) = Inl e \<Longrightarrow>
   fst (apply_entry pg meta) = None"
  by (simp add: apply_entry_def number_of_text_Nil Let_def)

text \<open>
  Claim C4. When the page opens, an entry of the selector map whose selector string is
  empty gives \<open>null\<close> (\<open>None\<close>) for its label, whatever the page: \<open>apply_selectors\<close>
  returns a result, this label is mapped to \<open>None\<close> in it, and the entry hands no
  selector to \<open>eval_on_selector\<close>.
\<close>

theorem C4_empty_selector_yields_null:
  assumes "goto url = Inr pg" and "distinct (map fst sels)"
    and "(l, meta) \<in> set sels" and "map_of meta ''selector'' = Some []"
  shows "\<exists>res. apply_selectors goto url sels = Inr res \<and> map_of res l = Some None \<and>
           apply_entry pg meta = (None, [])"
proof -
  have "apply_selectors goto url sels = Inr (map (\<lambda>(l, m). (l, fst (apply_entry pg m))) sels)"
    using assms(1,2) by (rule apply_selectors_map)
  moreover have "map_of (map (\<lambda>(l, m). (l, fst (apply_entry pg m))) sels) l
                   = Some (fst (apply_entry pg meta))"
    using assms(2,3) by (rule map_of_map_entry)
  moreover have "apply_entry pg meta = (None, [])"
    using assms(4) by (rule apply_entry_empty)
  ultimately show ?thesis by simp
qed

theorem C4_empty_selector_yields_null_witness:
  "open_report ''Height 171.0 cm'' ''http://example.org/r'' = Inr (report_page ''Height 171.0 cm'') \<and>
   distinct (map fst [(''Height'', make_entry [] ''171.0'')]) \<and>
   (''Height'', make_entry [] ''171.0'') \<in> set [(''Height'', make_entry [] ''171.0'')] \<and>
   map_of (make_entry [] ''171.0'') ''selector'' = Some [] \<and>
   (\<exists>res. apply_selectors (open_report ''Height 171.0 cm'') ''http://example.org/r''
             [(''Height'', make_entry [] ''171.0'')] = Inr res \<and>
          map_of res ''Height'' = Some None \<and>
          apply_entry (report_page ''Height 171.0 cm'') (make_entry [] ''171.0'') = (None, []))"
  using C4_empty_selector_yields_null
    [of "open_report ''Height 171.0 cm''" "''http://example.org/r''"
        "report_page ''Height 171.0 cm''" "[(''Height'', make_entry [] ''171.0'')]"
        "''Height''" "make_entry [] ''171.0''"]
  by (simp add: open_report_def make_entry_def)

text \<open>
  Claim C10. When the page opens, \<open>apply_selectors\<close> returns a result whose keys are
  exactly the labels of the selector map, in the same order; each label is mapped to the
  value of its own entry alone, a float or \<open>None\<close>; and an entry for which
  \<open>eval_on_selector\<close> raises is mapped to \<open>None\<close>.
\<close>

theorem C10_apply_keys_and_values:
  assumes "goto url = Inr pg" and "distinct (map fst sels)"
  shows "\<exists>res. apply_selectors goto url sels = Inr res \<and>
           map fst res = map fst sels \<and>
           (\<forall>(l, meta) \<in> set sels. map_of res l = Some (fst (apply_entry pg meta))) \<and>
           (\<forall>(l, meta) \<in> set sels.
              (\<exists>e. eval_on_selector pg
                     (case map_of meta ''selector'' of None \<Rightarrow> [] | Some s \<Rightarrow> s) = Inl e)
              \<longrightarrow> map_of res l = Some None)"
proof -
  let ?res = "map (\<lambda>(l, m). (l, fst (apply_entry pg m))) sels"
  have r: "apply_selectors goto url sels = Inr ?res"
    using assms by (rule apply_selectors_map)
  have k: "map fst ?res = map fst sels" by (induction sels) auto
  have v: "\<forall>(l, meta) \<in> set sels. map_of ?res l = Some (fst (apply_entry pg meta))"
    using map_of_map_entry [OF assms(2), of _ _ "\<lambda>m. fst (apply_entry pg m)"] by auto
  have x: "\<forall>(l, meta) \<in> set sels.
              (\<exists>e. eval_on_selector pg
                     (case map_of meta ''selector'' of None \<Rightarrow> [] | Some s \<Rightarrow> s) = Inl e)
              \<longrightarrow> map_of ?res l = Some None"
    using v apply_entry_raises by fastforce
  show ?thesis using r k v x by blast
qed

lemma number_of_text_example: "number_of_text ''62.5 kg'' = Some 62.5"
  by code_simp

lemma span_at: "element_at (report_doc t) [Suc 0, 0] = Some (Element (plain ''SPAN'' t) [])"
  by (simp add: element_at_def report_doc_def)

lemma textOf_plain: "textOf (Element (plain tag t) cs) = js_trim t"
  by (simp add: textOf_def plain_def js_or_def)

lemma isVisible_plain: "isVisible (Element (plain tag t) cs)"
  by (simp add: isVisible_def plain_def)

lemma eval_report_span:
  "eval_on_selector (report_page t) ''span:nth-of-type(1)'' = Inr (js_trim t)"
  by (simp add: eval_on_selector_def report_page_def span_at textOf_plain)

lemma eval_report_other:
  "sel \<noteq> ''span:nth-of-type(1)'' \<Longrightarrow> eval_on_selector (report_page t) sel = Inl SelectorError"
  by (simp add: eval_on_selector_def report_page_def)

lemma trim_example: "js_trim ''62.5 kg'' = ''62.5 kg''"
  by code_simp

theorem C10_apply_keys_and_values_witness:
  "open_report ''62.5 kg'' ''http://example.org/r'' = Inr (report_page ''62.5 kg'') \<and>
   distinct (map fst [(''Weight'', make_entry ''span:nth-of-type(1)'' ''62.5''),
                      (''Height'', make_entry ''div.gone'' ''171.0'')]) \<and>
   (\<exists>res. apply_selectors (open_report ''62.5 kg'') ''http://example.org/r''
            [(''Weight'', make_entry ''span:nth-of-type(1)'' ''62.5''),
             (''Height'', make_entry ''div.gone'' ''171.0'')] = Inr res \<and>
          map fst res = [''Weight'', ''Height''] \<and>
          map_of res ''Weight'' = Some (Some 62.5) \<and>
          map_of res ''Height'' = Some None)"
proof -
  have w: "fst (apply_entry (report_page ''62.5 kg'') (make_entry ''span:nth-of-type(1)'' ''62.5''))
             = Some 62.5"
    by (simp add: apply_entry_def make_entry_def eval_report_span trim_example
        number_of_text_example)
  have h: "eval_on_selector (report_page ''62.5 kg'')
             (case map_of (make_entry ''div.gone'' ''171.0'') ''selector'' of
                None \<Rightarrow> [] | Some s \<Rightarrow> s) = Inl SelectorError"
    by (simp add: make_entry_def eval_report_other)
  show ?thesis
    using C10_apply_keys_and_values
      [of "open_report ''62.5 kg''" "''http://example.org/r''" "report_page ''62.5 kg''"
          "[(''Weight'', make_entry ''span:nth-of-type(1)'' ''62.5''),
            (''Height'', make_entry ''div.gone'' ''171.0'')]"] w h
    by (auto simp: open_report_def)
qed

section \<open>Properties of learning selectors\<close>

lemma learn_loop_keys:
  "fst ` set (learn_loop pg lvs sels) = fst ` set sels \<union> label ` set lvs"
  by (induction lvs arbitrary: sels) (auto simp: dom_update)

lemma learn_loop_distinct:
  "distinct (map fst sels) \<Longrightarrow> distinct (map fst (learn_loop pg lvs sels))"
  by (induction lvs arbitrary: sels) (auto simp: distinct_update)

lemma learn_loop_map_of:
  "map_of (learn_loop pg lvs sels) l =
     (case filter (\<lambda>x. label x = l) lvs of
        [] \<Rightarrow> map_of sels l
      | f # fs \<Rightarrow> Some (learn_label pg (last (f # fs))))"
proof (induction lvs arbitrary: sels)
  case Nil
  then show ?case by simp
next
  case (Cons lv lvs)
  show ?case
    by (simp add: Cons.IH update_conv' split: list.splits)
qed

lemma learn_label_entry:
  "learn_label pg lv =
     make_entry
       (case SELECTOR_JS (page_document pg) (value_str lv) (label lv)
               (case unit lv of None \<Rightarrow> [] | Some u \<Rightarrow> u) of
          [] \<Rightarrow> [] | best # _ \<Rightarrow> path best)
       (value_str lv)"
  by (simp add: learn_label_def Let_def split: list.splits)

lemma learn_selectors_map_of:
  assumes "goto url = Inr pg" and "lv \<in> set labels"
  shows "\<exists>m. learn_selectors goto url labels = Inr m \<and>
           map_of m (label lv) =
             Some (learn_label pg (last (filter (\<lambda>x. label x = label lv) labels)))"
proof -
  have "filter (\<lambda>x. label x = label lv) labels \<noteq> []"
    using assms(2) by (auto simp: filter_empty_conv)
  then show ?thesis
    using assms(1)
    by (auto simp: learn_selectors_def learn_loop_map_of split: list.splits)
qed

text \<open>
  Claim C9. When the page opens, the map \<open>learn_selectors\<close> returns has exactly one entry
  for each distinct label of the input: its keys are distinct and are the labels of the
  input. The entry of a label is the one made for the last LabelValue with this label:
  its selector is the path of the first candidate the script returns, or the empty
  string when the script returns none or the path is empty, and its \<open>expect\<close> is the
  \<open>value_str\<close> of that LabelValue.
\<close>

theorem C9_learn_one_entry_per_label:
  assumes "goto url = Inr pg"
  shows "\<exists>m. learn_selectors goto url labels = Inr m \<and>
           distinct (map fst m) \<and>
           set (map fst m) = label ` set labels \<and>
           (\<forall>lv \<in> set labels.
              map_of m (label lv) =
                Some (let lst = last (filter (\<lambda>x. label x = label lv) labels) in
                      make_entry
                        (case SELECTOR_JS (page_document pg) (value_str lst) (label lst)
                                (case unit lst of None \<Rightarrow> [] | Some u \<Rightarrow> u) of
                           [] \<Rightarrow> [] | best # _ \<Rightarrow> path best)
                        (value_str lst)))"
proof -
  let ?m = "learn_loop pg labels []"
  have r: "learn_selectors goto url labels = Inr ?m"
    using assms by (simp add: learn_selectors_def)
  have d: "distinct (map fst ?m)"
    by (rule learn_loop_distinct) simp
  have k: "set (map fst ?m) = label ` set labels"
    using learn_loop_keys [of pg labels "[]"] by simp
  have v: "\<forall>lv \<in> set labels.
              map_of ?m (label lv) =
                Some (let lst = last (filter (\<lambda>x. label x = label lv) labels) in
                      make_entry
                        (case SELECTOR_JS (page_document pg) (value_str lst) (label lst)
                                (case unit lst of None \<Rightarrow> [] | Some u \<Rightarrow> u) of
                           [] \<Rightarrow> [] | best # _ \<Rightarrow> path best)
                        (value_str lst))"
  proof
    fix lv assume "lv \<in> set labels"
    then have "filter (\<lambda>x. label x = label lv) labels \<noteq> []"
      by (auto simp: filter_empty_conv)
    then show "map_of ?m (label lv) =
                Some (let lst = last (filter (\<lambda>x. label x = label lv) labels) in
                      make_entry
                        (case SELECTOR_JS (page_document pg) (value_str lst) (label lst)
                                (case unit lst of None \<Rightarrow> [] | Some u \<Rightarrow> u) of
                           [] \<Rightarrow> [] | best # _ \<Rightarrow> path best)
                        (value_str lst))"
      by (simp add: learn_loop_map_of learn_label_entry Let_def split: list.splits)
  qed
  show ?thesis using r d k v by blast
qed

lemma elements_report: "elements (report_doc t) = [[Suc 0, 0]]"
  by (simp add: elements_def body_descendants_def element_at_def report_doc_def)

lemma lower_SPAN: "toLowerCase ''SPAN'' = ''span''"
  by code_simp

lemma string_of_nat_1: "string_of_nat (Suc 0) = ''1''"
  by code_simp

lemma cssPath_report: "cssPath (report_doc t) [Suc 0, 0] = ''span:nth-of-type(1)''"
  by (simp add: cssPath_def cssPath_parts_def element_at_def report_doc_def plain_def
      segment_def nth_of_type_part_def parentElement_def lower_SPAN string_of_nat_1 Let_def)

lemma candidate_of_report:
  "containsNumberLike (js_trim t) n u = Some m \<Longrightarrow>
   \<exists>sc. candidate_of (report_doc t) n l u [Suc 0, 0] =
      Some \<lparr>elText = js_trim t, path = ''span:nth-of-type(1)'',
        rect = \<lparr>rect_x = 0, rect_y = 0, width = 100, height = 25\<rparr>, score = sc\<rparr>"
  by (simp add: candidate_of_def span_at isVisible_plain textOf_plain cssPath_report Let_def)
     (simp add: plain_def)

lemma top5_single: "top5 [c] = [c]"
  by (simp add: top5_def sort_candidates_def)

lemma SELECTOR_JS_report:
  "containsNumberLike (js_trim t) n u = Some m \<Longrightarrow>
   \<exists>sc. SELECTOR_JS (report_doc t) n l u =
      [\<lparr>elText = js_trim t, path = ''span:nth-of-type(1)'',
        rect = \<lparr>rect_x = 0, rect_y = 0, width = 100, height = 25\<rparr>, score = sc\<rparr>]"
  using candidate_of_report [of t n u m l]
  by (auto simp: SELECTOR_JS_def candidates_def elements_report List.map_filter_simps top5_single)

lemma SELECTOR_JS_report_none:
  "containsNumberLike (js_trim t) n u = None \<Longrightarrow> SELECTOR_JS (report_doc t) n l u = []"
  by (simp add: SELECTOR_JS_def candidates_def elements_report List.map_filter_simps
      candidate_of_def span_at isVisible_plain textOf_plain Let_def top5_def sort_candidates_def)

lemma tier_example_unit: "containsNumberLike (js_trim ''62.5 kg'') ''62.5'' ''kg'' = Some Exact_unit"
  by code_simp

lemma tier_example_none: "containsNumberLike (js_trim ''62.5 kg'') ''171.0'' ''cm'' = None"
  by code_simp

theorem C9_learn_one_entry_per_label_witness:
  "open_report ''62.5 kg'' ''http://example.org/r'' = Inr (report_page ''62.5 kg'') \<and>
   (\<exists>m. learn_selectors (open_report ''62.5 kg'') ''http://example.org/r''
           [\<lparr>label = ''Weight'', value_str = ''1'', value_float = Some 1, unit = None\<rparr>,
            \<lparr>label = ''Weight'', value_str = ''62.5'', value_float = Some 62.5,
              unit = Some ''kg''\<rparr>,
            \<lparr>label = ''Height'', value_str = ''171.0'', value_float = Some 171,
              unit = Some ''cm''\<rparr>] = Inr m \<and>
        distinct (map fst m) \<and>
        set (map fst m) = {''Weight'', ''Height''} \<and>
        map_of m ''Weight'' = Some (make_entry ''span:nth-of-type(1)'' ''62.5'') \<and>
        map_of m ''Height'' = Some (make_entry [] ''171.0''))"
proof -
  obtain sc where w: "SELECTOR_JS (report_doc ''62.5 kg'') ''62.5'' ''Weight'' ''kg'' =
      [\<lparr>elText = js_trim ''62.5 kg'', path = ''span:nth-of-type(1)'',
        rect = \<lparr>rect_x = 0, rect_y = 0, width = 100, height = 25\<rparr>, score = sc\<rparr>]"
    using SELECTOR_JS_report [OF tier_example_unit] by blast
  have h: "SELECTOR_JS (report_doc ''62.5 kg'') ''171.0'' ''Height'' ''cm'' = []"
    using tier_example_none by (rule SELECTOR_JS_report_none)
  show ?thesis
    using C9_learn_one_entry_per_label
      [of "open_report ''62.5 kg''" "''http://example.org/r''" "report_page ''62.5 kg''"
          "[\<lparr>label = ''Weight'', value_str = ''1'', value_float = Some 1, unit = None\<rparr>,
            \<lparr>label = ''Weight'', value_str = ''62.5'', value_float = Some 62.5,
              unit = Some ''kg''\<rparr>,
            \<lparr>label = ''Height'', value_str = ''171.0'', value_float = Some 171,
              unit = Some ''cm''\<rparr>]"] w h
    by (auto simp: open_report_def report_page_def)
qed

section \<open>Properties of the label extractor\<close>

text \<open>
  Claim C7. The line \<open>Weight: 62.5 kg\<close> gives exactly the LabelValue with label
  \<open>Weight\<close>, value\_str \<open>62.5\<close>, value\_float 62.5 and unit \<open>kg\<close>: the pattern of the
  line splits it into the label \<open>Weight\<close> before the colon and the remainder \<open>62.5 kg\<close>;
  the first numeral of the remainder is \<open>62.5\<close>, its float is 62.5, and the trailing run
  of letters of the remainder is \<open>kg\<close>.
\<close>

theorem C7_label_extractor_example:
  "parse_important [''Weight: 62.5 kg''] =
     [\<lparr>label = ''Weight'', value_str = ''62.5'', value_float = Some 62.5, unit = Some ''kg''\<rparr>] \<and>
   label_match ''Weight: 62.5 kg'' = Some (''Weight'', ''62.5 kg'') \<and>
   re_search NumberRe ''62.5 kg'' = Some ''62.5'' \<and>
   py_float ''62.5'' = Some 62.5 \<and>
   re_search unit_re ''62.5 kg'' = Some ''kg''"
  by code_simp

section \<open>Properties of the date key\<close>












end
